theory Spec2Isabelle
  imports Complex_Main "HOL-Library.Sublist"
begin

section \<open>Python values used by the pipeline\<close>

text \<open>
  Exceptions are values. \<open>ValueError\<close> is what the repository raises itself
  (\<^verbatim>\<open>loaders.py\<close>); \<open>UnboundLocalError\<close> is Python's error for reading a local
  variable that no loop iteration assigned; \<open>External\<close> stands for any exception that an
  external collaborator (vector store, model backend, file reader) raises. Each carries
  the text that \<^verbatim>\<open>str(e)\<close> returns.
\<close>

datatype error = ValueError string | UnboundLocalError string | External string

fun str_error :: "error \<Rightarrow> string" where
  "str_error (ValueError m) = m"
| "str_error (UnboundLocalError m) = m"
| "str_error (External m) = m"

text \<open>\<^verbatim>\<open>str(n)\<close> for an integer: decimal digits, a leading minus sign when negative.\<close>

fun str_nat :: "nat \<Rightarrow> string" where
  "str_nat n =
     (if n < 10 then [''0123456789'' ! n]
      else str_nat (n div 10) @ [''0123456789'' ! (n mod 10)])"

declare str_nat.simps [simp del]

definition str_int :: "int \<Rightarrow> string" where
  "str_int i = (if i < 0 then CHR ''-'' # str_nat (nat (- i)) else str_nat (nat i))"

text \<open>
  How an f-string renders an optional field: \<^verbatim>\<open>None\<close> becomes the four characters
  \<^verbatim>\<open>None\<close>.
\<close>

definition fmt_int_opt :: "int option \<Rightarrow> string" where
  "fmt_int_opt v = (case v of None \<Rightarrow> ''None'' | Some i \<Rightarrow> str_int i)"

definition fmt_str_opt :: "string option \<Rightarrow> string" where
  "fmt_str_opt v = (case v of None \<Rightarrow> ''None'' | Some s \<Rightarrow> s)"

text \<open>
  \<^verbatim>\<open>x or default\<close> on an optional integer: \<^verbatim>\<open>None\<close> and \<^verbatim>\<open>0\<close> are both falsy, so both
  give the default.
\<close>

definition py_or :: "int option \<Rightarrow> int \<Rightarrow> int" where
  "py_or x d = (case x of None \<Rightarrow> d | Some v \<Rightarrow> (if v = 0 then d else v))"

text \<open>\<^verbatim>\<open>sep.join(parts)\<close>.\<close>

fun join :: "string \<Rightarrow> string list \<Rightarrow> string" where
  "join sep [] = []"
| "join sep [x] = x"
| "join sep (x # y # ys) = x @ sep @ join sep (y # ys)"

section \<open>Configuration (\<^verbatim>\<open>config.py\<close>)\<close>

record rag_settings =
  llm_model :: string
  llm_provider :: string
  chunk_size :: int
  chunk_overlap :: int
  retrieval_k :: int

definition default_settings :: rag_settings where
  "default_settings =
     \<lparr>llm_model = ''gemma3:4b'', llm_provider = ''ollama'',
      chunk_size = 1000, chunk_overlap = 200, retrieval_k = 4\<rparr>"

section \<open>Documents and citations (\<^verbatim>\<open>retriever.py\<close>)\<close>

text \<open>
  A LangChain \<^verbatim>\<open>Document\<close>: text plus a metadata dictionary. The dictionary is modelled
  by the keys the loaders write and \<^verbatim>\<open>SourceInfo.from_document\<close> reads, each absent
  (\<open>None\<close>) or present, with the types \<^verbatim>\<open>SourceInfo\<close> declares for them.
\<close>

record metadata =
  m_source :: "string option"
  m_filename :: "string option"
  m_page :: "int option"
  m_total_pages :: "int option"
  m_slide :: "int option"
  m_total_slides :: "int option"
  m_sheet :: "string option"

record document =
  page_content :: string
  doc_metadata :: metadata

definition empty_metadata :: metadata where
  "empty_metadata =
     \<lparr>m_source = None, m_filename = None, m_page = None, m_total_pages = None,
      m_slide = None, m_total_slides = None, m_sheet = None\<rparr>"

record source_info =
  filename :: string
  page :: "int option"
  slide :: "int option"
  sheet :: "string option"
  score :: real

definition from_document :: "document \<Rightarrow> real \<Rightarrow> source_info" where
  "from_document doc sc =
     (let md = doc_metadata doc in
      \<lparr>filename = (case m_filename md of None \<Rightarrow> ''unknown'' | Some f \<Rightarrow> f),
       page = m_page md,
       slide = m_slide md,
       sheet = m_sheet md,
       score = sc\<rparr>)"

record retrieval_result =
  documents :: "document list"
  sources :: "source_info list"

definition context_of :: "retrieval_result \<Rightarrow> string" where
  "context_of r =
     join [CHR 0x0A, CHR 0x0A, CHR ''-'', CHR ''-'', CHR ''-'', CHR 0x0A, CHR 0x0A]
       (map page_content (documents r))"

text \<open>
  The key that \<^verbatim>\<open>retrieve\<close> puts into \<^verbatim>\<open>seen_sources\<close>: the f-string
  \<^verbatim>\<open>f"{source.filename}:{source.page}:{source.slide}:{source.sheet}"\<close>.
\<close>

definition source_key :: "source_info \<Rightarrow> string" where
  "source_key s =
     filename s @ '':'' @ fmt_int_opt (page s) @ '':'' @ fmt_int_opt (slide s) @ '':''
       @ fmt_str_opt (sheet s)"


text \<open>
  The \<^verbatim>\<open>for doc, score in results\<close> loop of \<^verbatim>\<open>DocumentRetriever.retrieve\<close>, with its three
  accumulators \<^verbatim>\<open>documents\<close>, \<^verbatim>\<open>sources\<close> and \<^verbatim>\<open>seen_sources\<close>.
\<close>

fun retrieve_loop ::
  "(document \<times> real) list \<Rightarrow> document list \<Rightarrow> source_info list \<Rightarrow> string set
    \<Rightarrow> retrieval_result" where
  "retrieve_loop [] docs srcs seen = \<lparr>documents = docs, sources = srcs\<rparr>"
| "retrieve_loop ((doc, sc) # rest) docs srcs seen =
     (let source = from_document doc sc;
          source_key = source_key source
      in if source_key \<notin> seen
         then retrieve_loop rest (docs @ [doc]) (srcs @ [source]) (insert source_key seen)
         else retrieve_loop rest (docs @ [doc]) srcs seen)"

text \<open>
  The vector store's \<^verbatim>\<open>similarity_search_with_score(query, k=k)\<close> is an external
  collaborator: a function from the query and \<open>k\<close> to ranked (chunk, score) pairs, or an
  exception.
\<close>

type_synonym similarity_search = "string \<Rightarrow> int \<Rightarrow> error + (document \<times> real) list"

record document_retriever =
  r_k :: int
  r_search :: similarity_search

definition DocumentRetriever :: "rag_settings \<Rightarrow> similarity_search \<Rightarrow> int option \<Rightarrow> document_retriever" where
  "DocumentRetriever cfg search k = \<lparr>r_k = py_or k (retrieval_k cfg), r_search = search\<rparr>"

definition retrieve :: "document_retriever \<Rightarrow> string \<Rightarrow> int option \<Rightarrow> error + retrieval_result" where
  "retrieve r query k =
     (let k' = py_or k (r_k r) in
      case r_search r query k' of
        Inl e \<Rightarrow> Inl e
      | Inr results \<Rightarrow> Inr (retrieve_loop results [] [] {}))"

definition aretrieve :: "document_retriever \<Rightarrow> string \<Rightarrow> int option \<Rightarrow> error + retrieval_result" where
  "aretrieve r query k = retrieve r query k"

section \<open>Pipeline state (\<^verbatim>\<open>state.py\<close>)\<close>

datatype message = SystemMessage string | HumanMessage string | AIMessage string

record rag_state =
  messages :: "message list"
  query :: string
  retrieved_docs :: "document list"
  "context" :: string
  st_sources :: "source_info list"
  response :: string
  is_streaming :: bool
  model :: string
  provider :: string

section \<open>The language-model backend (external collaborator)\<close>

text \<open>
  The \<^verbatim>\<open>content\<close> of a model message is a string or a list whose items are strings or
  dictionaries; of a dictionary only its \<^verbatim>\<open>"text"\<close> entry is read, by
  \<^verbatim>\<open>c.get("text", "")\<close>.
\<close>

datatype content_item = TextItem string | DictItem "string option"

datatype content = StrContent string | ListContent "content_item list"

text \<open>What \<^verbatim>\<open>astream\<close> hands to the loop: an \<^verbatim>\<open>AIMessage\<close> chunk, or any other object.\<close>

datatype stream_chunk = AIChunk content | OtherChunk

text \<open>
  A backend answers a prompt in one piece (\<^verbatim>\<open>ainvoke\<close>: the content of the reply, or an
  exception) or incrementally (\<^verbatim>\<open>astream\<close>: the chunks it delivers, then an exception
  if the stream breaks off instead of completing).
\<close>

record llm =
  ainvoke :: "message list \<Rightarrow> error + content"
  astream :: "message list \<Rightarrow> stream_chunk list \<times> error option"

text \<open>
  What the generator nodes take from their surroundings: the settings, the prompt template
  \<^verbatim>\<open>rag_prompt.format_messages(context=..., messages=...)\<close>, and
  \<^verbatim>\<open>get_default_llm(streaming=...)\<close>, which raises when the provider cannot be built.
\<close>

record gen_env =
  settings :: rag_settings
  format_messages :: "string \<Rightarrow> message list \<Rightarrow> message list"
  get_default_llm :: "bool \<Rightarrow> error + llm"

section \<open>Generator nodes (\<^verbatim>\<open>nodes/generate.py\<close>)\<close>

fun item_text :: "content_item \<Rightarrow> string" where
  "item_text (TextItem s) = s"
| "item_text (DictItem t) = (case t of None \<Rightarrow> [] | Some s \<Rightarrow> s)"

text \<open>The \<^verbatim>\<open>isinstance\<close> cascade that both nodes apply to a \<^verbatim>\<open>content\<close> value.\<close>

fun extract_content :: "content \<Rightarrow> string" where
  "extract_content (StrContent s) = s"
| "extract_content (ListContent items) = concat (map item_text items)"

text \<open>Truthiness of \<^verbatim>\<open>chunk.content\<close>: a non-empty string or a non-empty list.\<close>

fun truthy :: "content \<Rightarrow> bool" where
  "truthy (StrContent s) = (s \<noteq> [])"
| "truthy (ListContent items) = (items \<noteq> [])"

text \<open>
  The dictionaries the generator nodes return or yield. A key that a dictionary does not
  have is \<open>None\<close>.
\<close>

record update =
  u_response :: "string option"
  u_is_streaming :: "bool option"
  u_model :: "string option"
  u_provider :: "string option"

definition generate :: "gen_env \<Rightarrow> rag_state \<Rightarrow> error + update" where
  "generate env state =
     (let prompt = format_messages env (context state) (messages state) in
      case get_default_llm env False of
        Inl e \<Rightarrow> Inl e
      | Inr llm \<Rightarrow>
          (case ainvoke llm prompt of
             Inl e \<Rightarrow> Inl e
           | Inr response_content \<Rightarrow>
               Inr \<lparr>u_response = Some (extract_content response_content),
                    u_is_streaming = None,
                    u_model = Some (llm_model (settings env)),
                    u_provider = Some (llm_provider (settings env))\<rparr>))"

text \<open>
  The \<^verbatim>\<open>async for chunk in llm.astream(prompt)\<close> loop: from the accumulator so far and the
  chunks still to come, the updates yielded and the accumulator at the end.
\<close>

fun stream_loop :: "string \<Rightarrow> stream_chunk list \<Rightarrow> update list \<times> string" where
  "stream_loop accumulated [] = ([], accumulated)"
| "stream_loop accumulated (OtherChunk # rest) = stream_loop accumulated rest"
| "stream_loop accumulated (AIChunk c # rest) =
     (if truthy c
      then (let accumulated' = accumulated @ extract_content c;
                (ys, final) = stream_loop accumulated' rest
            in (\<lparr>u_response = Some accumulated', u_is_streaming = Some True,
                  u_model = None, u_provider = None\<rparr> # ys, final))
      else stream_loop accumulated rest)"

text \<open>
  \<^verbatim>\<open>generate_streaming\<close> is an asynchronous generator: its value here is the list of
  updates it yields, and the exception that ends it if one is raised.
\<close>

definition generate_streaming :: "gen_env \<Rightarrow> rag_state \<Rightarrow> update list \<times> error option" where
  "generate_streaming env state =
     (let prompt = format_messages env (context state) (messages state) in
      case get_default_llm env True of
        Inl e \<Rightarrow> ([], Some e)
      | Inr llm \<Rightarrow>
          (let (chunks, failure) = astream llm prompt;
               (ys, accumulated) = stream_loop [] chunks
           in case failure of
                Some e \<Rightarrow> (ys, Some e)
              | None \<Rightarrow>
                  (ys @ [\<lparr>u_response = Some accumulated, u_is_streaming = Some False,
                           u_model = Some (llm_model (settings env)),
                           u_provider = Some (llm_provider (settings env))\<rparr>], None)))"

section \<open>Retrieve node (\<^verbatim>\<open>nodes/retrieve.py\<close>)\<close>

record retrieve_update =
  ru_retrieved_docs :: "document list"
  ru_context :: string
  ru_sources :: "source_info list"

definition retrieve_node :: "document_retriever \<Rightarrow> rag_state \<Rightarrow> error + retrieve_update" where
  "retrieve_node retriever state =
     (case aretrieve retriever (query state) None of
        Inl e \<Rightarrow> Inl e
      | Inr result \<Rightarrow>
          Inr \<lparr>ru_retrieved_docs = documents result,
               ru_context = context_of result,
               ru_sources = sources result\<rparr>)"

section \<open>Pipeline orchestrator (\<^verbatim>\<open>chain.py\<close>)\<close>

text \<open>
  One turn of the chat history, \<^verbatim>\<open>{"role": str, "content": str}\<close> as the docstring of
  \<^verbatim>\<open>run_rag\<close> gives it.
\<close>

record chat_turn =
  role :: string
  content :: string

text \<open>
  The conversion loop at the head of \<^verbatim>\<open>run_rag\<close> and, verbatim again, of \<^verbatim>\<open>stream_rag\<close>:
  an \<^verbatim>\<open>if\<close>/\<^verbatim>\<open>elif\<close> with no \<^verbatim>\<open>else\<close>.
\<close>

fun convert_history :: "chat_turn list \<Rightarrow> message list" where
  "convert_history [] = []"
| "convert_history (msg # rest) =
     (if role msg = ''user'' then HumanMessage (content msg) # convert_history rest
      else if role msg = ''assistant'' then AIMessage (content msg) # convert_history rest
      else convert_history rest)"

text \<open>
  \<^verbatim>\<open>chat_history\<close> may be \<^verbatim>\<open>None\<close>; \<^verbatim>\<open>if chat_history:\<close> skips the loop for \<^verbatim>\<open>None\<close> and
  for the empty list alike.
\<close>

definition build_messages :: "string \<Rightarrow> chat_turn list option \<Rightarrow> message list" where
  "build_messages q chat_history =
     (case chat_history of
        None \<Rightarrow> []
      | Some h \<Rightarrow> (if h \<noteq> [] then convert_history h else []))
     @ [HumanMessage q]"

definition initial_state :: "bool \<Rightarrow> string \<Rightarrow> chat_turn list option \<Rightarrow> rag_state" where
  "initial_state streaming q chat_history =
     \<lparr>messages = build_messages q chat_history,
      query = q,
      retrieved_docs = [],
      context = [],
      st_sources = [],
      response = [],
      is_streaming = streaming,
      model = [],
      provider = []\<rparr>"

text \<open>
  \<^verbatim>\<open>run_rag\<close> runs the compiled graph \<^verbatim>\<open>START -> retrieve -> generate -> END\<close>: each node's
  returned dictionary overwrites the keys it names in the state.
\<close>

definition run_rag ::
  "gen_env \<Rightarrow> document_retriever \<Rightarrow> string \<Rightarrow> chat_turn list option \<Rightarrow> error + rag_state" where
  "run_rag env retriever q chat_history =
     (let s0 = initial_state False q chat_history in
      case retrieve_node retriever s0 of
        Inl e \<Rightarrow> Inl e
      | Inr ru \<Rightarrow>
          (let s1 = s0\<lparr>retrieved_docs := ru_retrieved_docs ru,
                       context := ru_context ru,
                       st_sources := ru_sources ru\<rparr>
           in case generate env s1 of
                Inl e \<Rightarrow> Inl e
              | Inr u \<Rightarrow>
                  Inr (s1\<lparr>response := (case u_response u of None \<Rightarrow> response s1 | Some r \<Rightarrow> r),
                          model := (case u_model u of None \<Rightarrow> model s1 | Some m \<Rightarrow> m),
                          provider := (case u_provider u of None \<Rightarrow> provider s1 | Some p \<Rightarrow> p)\<rparr>)))"

text \<open>The tagged events of \<^verbatim>\<open>stream_rag\<close>, with the fields each dictionary carries.\<close>

datatype event =
  SourcesEvent "source_info list" string
| ChunkEvent string bool
| DoneEvent string string string "source_info list"

definition chunk_event :: "update \<Rightarrow> event" where
  "chunk_event u =
     ChunkEvent (case u_response u of None \<Rightarrow> [] | Some r \<Rightarrow> r)
                (case u_is_streaming u of None \<Rightarrow> True | Some b \<Rightarrow> b)"

definition done_event :: "update \<Rightarrow> source_info list \<Rightarrow> event" where
  "done_event u srcs =
     DoneEvent (case u_response u of None \<Rightarrow> [] | Some r \<Rightarrow> r)
               (case u_model u of None \<Rightarrow> [] | Some m \<Rightarrow> m)
               (case u_provider u of None \<Rightarrow> [] | Some p \<Rightarrow> p)
               srcs"

text \<open>
  \<^verbatim>\<open>stream_rag\<close> is an asynchronous generator: the events it yields, and the exception
  that ends it if one is raised. After the loop, \<^verbatim>\<open>update\<close> is the last update the loop
  saw; with no update at all the name is unbound.
\<close>

definition stream_rag ::
  "gen_env \<Rightarrow> document_retriever \<Rightarrow> string \<Rightarrow> chat_turn list option \<Rightarrow> event list \<times> error option" where
  "stream_rag env retriever q chat_history =
     (let s0 = initial_state True q chat_history in
      case aretrieve retriever q None of
        Inl e \<Rightarrow> ([], Some e)
      | Inr result \<Rightarrow>
          (let first = SourcesEvent (sources result) (context_of result);
               state = s0\<lparr>retrieved_docs := documents result,
                          context := context_of result,
                          st_sources := sources result\<rparr>;
               (updates, failure) = generate_streaming env state;
               chunks = map chunk_event updates
           in case failure of
                Some e \<Rightarrow> (first # chunks, Some e)
              | None \<Rightarrow>
                  (if updates = []
                   then (first # chunks, Some (UnboundLocalError ''update''))
                   else (first # chunks @ [done_event (last updates) (sources result)],
                         None))))"

section \<open>Document loaders (\<^verbatim>\<open>loaders.py\<close>)\<close>

text \<open>
  A path found by \<^verbatim>\<open>directory.glob\<close>, with the attributes \<^verbatim>\<open>load_directory\<close> reads:
  \<^verbatim>\<open>str(file_path)\<close>, \<^verbatim>\<open>file_path.is_file()\<close> and \<^verbatim>\<open>file_path.suffix.lower()\<close>.
\<close>

record fs_entry =
  p_str :: string
  p_is_file :: bool
  p_suffix_lower :: string

text \<open>
  A directory: its path, whether it exists, and what \<^verbatim>\<open>glob\<close> lists, recursively
  (\<^verbatim>\<open>"**/*"\<close>, argument \<open>True\<close>) or not (\<^verbatim>\<open>"*"\<close>).
\<close>

record directory =
  d_path :: string
  d_exists :: bool
  d_glob :: "bool \<Rightarrow> fs_entry list"

text \<open>
  The five format readers parse files with external libraries; each is a function from the
  path to the documents extracted, or the exception the reader raises.
\<close>

type_synonym loader = "fs_entry \<Rightarrow> error + document list"

record loader_funcs =
  load_pdf :: loader
  load_docx :: loader
  load_pptx :: loader
  load_xlsx :: loader
  load_txt :: loader

definition LOADER_MAP :: "loader_funcs \<Rightarrow> (string \<times> loader) list" where
  "LOADER_MAP L =
     [(''.pdf'', load_pdf L), (''.docx'', load_docx L), (''.pptx'', load_pptx L),
      (''.xlsx'', load_xlsx L), (''.txt'', load_txt L)]"

definition SUPPORTED_EXTENSIONS :: "loader_funcs \<Rightarrow> string set" where
  "SUPPORTED_EXTENSIONS L = set (map fst (LOADER_MAP L))"

definition load_document :: "loader_funcs \<Rightarrow> fs_entry \<Rightarrow> error + document list" where
  "load_document L file_path =
     (let ext = p_suffix_lower file_path in
      case map_of (LOADER_MAP L) ext of
        None \<Rightarrow> Inl (ValueError (''Unsupported file extension: '' @ ext))
      | Some loader_func \<Rightarrow> loader_func file_path)"

text \<open>
  The \<^verbatim>\<open>for file_path in directory.glob(pattern)\<close> loop of \<^verbatim>\<open>load_directory\<close>: the
  documents yielded and the lines printed.
\<close>

fun load_loop :: "loader_funcs \<Rightarrow> fs_entry list \<Rightarrow> document list \<times> string list" where
  "load_loop L [] = ([], [])"
| "load_loop L (file_path # rest) =
     (if p_is_file file_path \<and> p_suffix_lower file_path \<in> SUPPORTED_EXTENSIONS L
      then (case load_document L file_path of
              Inr docs \<Rightarrow>
                (let (ds, out) = load_loop L rest in (docs @ ds, out))
            | Inl e \<Rightarrow>
                (let (ds, out) = load_loop L rest
                 in (ds, (''Error loading '' @ p_str file_path @ '': '' @ str_error e) # out)))
      else load_loop L rest)"

text \<open>
  \<^verbatim>\<open>load_directory\<close> is a generator: the documents it yields, the lines it prints, and the
  exception that ends it if one is raised.
\<close>

record load_outcome =
  yielded :: "document list"
  printed :: "string list"
  raised :: "error option"

definition load_directory :: "loader_funcs \<Rightarrow> directory \<Rightarrow> directory option \<Rightarrow> bool \<Rightarrow> load_outcome" where
  "load_directory L docs_path dir recursive =
     (let directory = (case dir of None \<Rightarrow> docs_path | Some d \<Rightarrow> d) in
      if \<not> d_exists directory
      then \<lparr>yielded = [], printed = [],
            raised = Some (ValueError (''Directory does not exist: '' @ d_path directory))\<rparr>
      else (let (ds, out) = load_loop L (d_glob directory recursive)
            in \<lparr>yielded = ds, printed = out, raised = None\<rparr>))"

section \<open>Text splitter configuration (\<^verbatim>\<open>splitter.py\<close>)\<close>





section \<open>Indexing operation (\<^verbatim>\<open>indexer.py\<close>)\<close>

record index_result =
  indexed_count :: int
  chunk_count :: int
  errors :: "string list"

text \<open>
  The vector store is an external collaborator: the chunks of its collection, and for each
  backend operation the message of the exception it raises when it fails.
\<close>

record chroma =
  collection :: "document list"
  add_failure :: "string option"
  delete_failure :: "string option"
  count_failure :: "string option"

definition add_documents :: "chroma \<Rightarrow> document list \<Rightarrow> error + chroma" where
  "add_documents vs chunks =
     (case add_failure vs of
        Some m \<Rightarrow> Inl (External m)
      | None \<Rightarrow> Inr (vs\<lparr>collection := collection vs @ chunks\<rparr>))"

definition delete_collection :: "chroma \<Rightarrow> error + chroma" where
  "delete_collection vs =
     (case delete_failure vs of
        Some m \<Rightarrow> Inl (External m)
      | None \<Rightarrow> Inr (vs\<lparr>collection := []\<rparr>))"

text \<open>
  The indexer: \<open>opened\<close> says whether \<^verbatim>\<open>_vector_store\<close> holds a handle (is not \<^verbatim>\<open>None\<close>);
  \<open>store\<close> is the persisted collection that the handle, once created, refers to.
\<close>

record document_indexer =
  opened :: bool
  store :: chroma

definition clear_index :: "document_indexer \<Rightarrow> document_indexer" where
  "clear_index ix =
     (let ix1 = (if opened ix
                 then (case delete_collection (store ix) of
                         Inl e \<Rightarrow> ix
                       | Inr vs \<Rightarrow> ix\<lparr>store := vs\<rparr>)\<lparr>opened := False\<rparr>
                 else ix)
      in ix1\<lparr>opened := True\<rparr>)"

definition get_document_count :: "document_indexer \<Rightarrow> int \<times> document_indexer" where
  "get_document_count ix =
     (case count_failure (store ix) of
        Some m \<Rightarrow> (0, ix\<lparr>opened := True\<rparr>)
      | None \<Rightarrow> (int (length (collection (store ix))), ix\<lparr>opened := True\<rparr>))"

text \<open>
  \<^verbatim>\<open>index_documents\<close>. \<open>split_documents\<close> is \<^verbatim>\<open>text_splitter.split_documents\<close> of the
  library splitter; \<open>docs_path\<close> is the configured default directory.
\<close>

definition index_documents ::
  "loader_funcs \<Rightarrow> (document list \<Rightarrow> document list) \<Rightarrow> directory \<Rightarrow> document_indexer
    \<Rightarrow> directory option \<Rightarrow> bool \<Rightarrow> index_result \<times> document_indexer" where
  "index_documents L split_documents docs_path ix docs_dir clear_existing =
     (let dir = (case docs_dir of None \<Rightarrow> docs_path | Some d \<Rightarrow> d);
          ix1 = (if clear_existing then clear_index ix else ix);
          loaded = load_directory L docs_path (Some dir) True;
          documents = yielded loaded;
          errors = (case raised loaded of
                      None \<Rightarrow> []
                    | Some e \<Rightarrow> [''Error loading documents: '' @ str_error e])
      in if documents = []
         then (\<lparr>indexed_count = 0, chunk_count = 0,
                errors = (if errors \<noteq> [] then errors else [''No documents found''])\<rparr>, ix1)
         else (let chunks = split_documents documents in
               if chunks = []
               then (\<lparr>indexed_count = int (length documents), chunk_count = 0,
                      errors = [''No chunks generated after splitting'']\<rparr>, ix1)
               else (case add_documents (store ix1) chunks of
                       Inl e \<Rightarrow>
                         (\<lparr>indexed_count = 0, chunk_count = 0,
                           errors = errors @ [''Error adding to vector store: '' @ str_error e]\<rparr>,
                          ix1\<lparr>opened := True\<rparr>)
                     | Inr vs \<Rightarrow>
                         (\<lparr>indexed_count = int (length documents),
                           chunk_count = int (length chunks),
                           errors = errors\<rparr>,
                          ix1\<lparr>opened := True, store := vs\<rparr>))))"

section \<open>Vocabulary of the specification\<close>

text \<open>
  The message a kept history turn becomes: a user turn a \<open>HumanMessage\<close>, an assistant turn
  an \<open>AIMessage\<close>.
\<close>

definition turn_message :: "chat_turn \<Rightarrow> message" where
  "turn_message msg =
     (if role msg = ''user'' then HumanMessage (content msg) else AIMessage (content msg))"

text \<open>
  The message list the specification describes for a query and a chat history: the turns
  with role \<^verbatim>\<open>user\<close> or \<^verbatim>\<open>assistant\<close>, in order, then the query as a user message.
\<close>

definition history_messages :: "string \<Rightarrow> chat_turn list option \<Rightarrow> message list" where
  "history_messages q chat_history =
     map turn_message
       (filter (\<lambda>msg. role msg = ''user'' \<or> role msg = ''assistant'')
          (case chat_history of None \<Rightarrow> [] | Some h \<Rightarrow> h))
     @ [HumanMessage q]"


text \<open>
  The deltas of a backend stream: the text of each chunk that the streaming loop lets
  through (an \<^verbatim>\<open>AIMessage\<close> with non-empty content), in order.
\<close>

fun stream_deltas :: "stream_chunk list \<Rightarrow> string list" where
  "stream_deltas [] = []"
| "stream_deltas (OtherChunk # rest) = stream_deltas rest"
| "stream_deltas (AIChunk c # rest) =
     (if truthy c then extract_content c # stream_deltas rest else stream_deltas rest)"

text \<open>The two shapes of unit that \<^verbatim>\<open>generate_streaming\<close> yields.\<close>

definition streaming_unit :: "string \<Rightarrow> update" where
  "streaming_unit r =
     \<lparr>u_response = Some r, u_is_streaming = Some True, u_model = None, u_provider = None\<rparr>"

definition final_unit :: "gen_env \<Rightarrow> string \<Rightarrow> update" where
  "final_unit env r =
     \<lparr>u_response = Some r, u_is_streaming = Some False,
      u_model = Some (llm_model (settings env)),
      u_provider = Some (llm_provider (settings env))\<rparr>"

text \<open>\<^verbatim>\<open>update.get("response", "")\<close>.\<close>

definition response_text :: "update \<Rightarrow> string" where
  "response_text u = (case u_response u of None \<Rightarrow> [] | Some r \<Rightarrow> r)"

text \<open>An event seen as the specification's scenarios write it: its tag and its response.\<close>

fun event_view :: "event \<Rightarrow> string \<times> string option" where
  "event_view (SourcesEvent srcs ctx) = (''sources'', None)"
| "event_view (ChunkEvent r b) = (''chunk'', Some r)"
| "event_view (DoneEvent r m p srcs) = (''done'', Some r)"




section \<open>Stub collaborators for concrete runs\<close>

text \<open>A backend that streams \<^verbatim>\<open>Hel\<close> then \<^verbatim>\<open>lo\<close> and answers \<^verbatim>\<open>Hello\<close> when buffered.\<close>

definition stub_backend :: llm where
  "stub_backend =
     \<lparr>ainvoke = (\<lambda>prompt. Inr (StrContent ''Hello'')),
      astream = (\<lambda>prompt. ([AIChunk (StrContent ''Hel''), AIChunk (StrContent ''lo'')], None))\<rparr>"

definition stub_env :: gen_env where
  "stub_env =
     \<lparr>settings = default_settings,
      format_messages = (\<lambda>ctx msgs. SystemMessage ctx # msgs),
      get_default_llm = (\<lambda>streaming. Inr stub_backend)\<rparr>"

text \<open>An index that holds one chunk, page 1 of \<^verbatim>\<open>test.pdf\<close>.\<close>

definition pdf_chunk :: document where
  "pdf_chunk =
     \<lparr>page_content = ''Hello world.'',
      doc_metadata = empty_metadata\<lparr>m_filename := Some ''test.pdf'', m_page := Some 1\<rparr>\<rparr>"

definition stub_retriever :: document_retriever where
  "stub_retriever = DocumentRetriever default_settings (\<lambda>q k. Inr [(pdf_chunk, 0.5)]) None"

definition stub_state :: rag_state where
  "stub_state =
     (initial_state True ''q'' None)\<lparr>retrieved_docs := [pdf_chunk], context := ''Hello world.''\<rparr>"






text \<open>
  A backend that answers with the texts of the messages of its prompt, one item or one
  chunk per message.
\<close>

fun message_text :: "message \<Rightarrow> string" where
  "message_text (SystemMessage t) = t"
| "message_text (HumanMessage t) = t"
| "message_text (AIMessage t) = t"

definition echo_backend :: llm where
  "echo_backend =
     \<lparr>ainvoke = (\<lambda>prompt. Inr (ListContent (map (\<lambda>m. TextItem (message_text m)) prompt))),
      astream = (\<lambda>prompt. (map (\<lambda>m. AIChunk (StrContent (message_text m))) prompt, None))\<rparr>"

definition echo_env :: gen_env where
  "echo_env =
     \<lparr>settings = default_settings,
      format_messages = (\<lambda>ctx msgs. SystemMessage ''S'' # msgs),
      get_default_llm = (\<lambda>streaming. Inr echo_backend)\<rparr>"

definition three_turns :: "chat_turn list" where
  "three_turns =
     [\<lparr>role = ''user'', content = ''a''\<rparr>, \<lparr>role = ''system'', content = ''x''\<rparr>,
      \<lparr>role = ''assistant'', content = ''b''\<rparr>]"

text \<open>
  A directory with two text files, of which \<^verbatim>\<open>bad.txt\<close> cannot be read; an empty
  directory; a path that does not exist.
\<close>

definition txt_entry :: "string \<Rightarrow> fs_entry" where
  "txt_entry p = \<lparr>p_str = p, p_is_file = True, p_suffix_lower = ''.txt''\<rparr>"

definition stub_loader :: loader where
  "stub_loader f =
     (if p_str f = ''/docs/bad.txt'' then Inl (External ''cannot decode'')
      else Inr [\<lparr>page_content = ''Hello world.'',
                 doc_metadata = empty_metadata\<lparr>m_source := Some (p_str f)\<rparr>\<rparr>])"

definition stub_loaders :: loader_funcs where
  "stub_loaders =
     \<lparr>load_pdf = stub_loader, load_docx = stub_loader, load_pptx = stub_loader,
      load_xlsx = stub_loader, load_txt = stub_loader\<rparr>"

definition docs_dir :: directory where
  "docs_dir =
     \<lparr>d_path = ''/docs'', d_exists = True,
      d_glob = (\<lambda>recursive. [txt_entry ''/docs/bad.txt'', txt_entry ''/docs/a.txt''])\<rparr>"




definition failing_indexer :: document_indexer where
  "failing_indexer =
     \<lparr>opened = False,
      store = \<lparr>collection = [], add_failure = Some ''Store error'', delete_failure = None,
               count_failure = None\<rparr>\<rparr>"

text \<open>A splitter that leaves every document as one chunk.\<close>

definition one_chunk_each :: "document list \<Rightarrow> document list" where
  "one_chunk_each docs = docs"

section \<open>Helper lemmas\<close>

lemma convert_history_filter:
  "convert_history h =
     map turn_message (filter (\<lambda>msg. role msg = ''user'' \<or> role msg = ''assistant'') h)"
  by (induction h) (auto simp: turn_message_def)


text \<open>
  What the deduplication does achieve: every rendered key among the retrieved chunks is
  cited exactly once, and chunks with the same tuple have the same rendered key.
\<close>

lemma retrieve_loop_sources_keys:
  assumes "seen = source_key ` set srcs" and "distinct (map source_key srcs)"
  shows "distinct (map source_key (sources (retrieve_loop results docs srcs seen)))
       \<and> source_key ` set (sources (retrieve_loop results docs srcs seen)) =
           seen \<union> source_key ` (\<lambda>(d, sc). from_document d sc) ` set results"
  using assms
proof (induction results docs srcs seen rule: retrieve_loop.induct)
  case (1 docs srcs seen)
  then show ?case by simp
next
  case (2 doc sc rest docs srcs seen)
  show ?case
  proof (cases "source_key (from_document doc sc) \<in> seen")
    case True
    with 2 show ?thesis by (auto simp: Let_def)
  next
    case False
    with 2 show ?thesis by (auto simp: Let_def)
  qed
qed


lemma stream_loop_eq:
  "stream_loop acc chunks =
     (map (\<lambda>k. streaming_unit (acc @ concat (take (Suc k) (stream_deltas chunks))))
        [0..<length (stream_deltas chunks)],
      acc @ concat (stream_deltas chunks))"
proof (induction acc chunks rule: stream_loop.induct)
  case (1 accumulated)
  then show ?case by simp
next
  case (2 accumulated rest)
  then show ?case by simp
next
  case (3 accumulated c rest)
  show ?case
  proof (cases "truthy c")
    case True
    have "[0..<Suc (length (stream_deltas rest))] = 0 # map Suc [0..<length (stream_deltas rest)]"
      by (simp add: upt_conv_Cons map_Suc_upt del: upt_Suc)
    with True 3 show ?thesis
      by (simp add: streaming_unit_def comp_def del: upt_Suc)
  next
    case False
    with 3 show ?thesis by simp
  qed
qed

lemma concat_take_prefix:
  assumes "i \<le> j"
  shows "prefix (concat (take i xs)) (concat (take j xs))"
proof -
  from assms have "take j xs = take i xs @ take (j - i) (drop i xs)"
    by (metis le_add_diff_inverse take_add)
  then show ?thesis by simp
qed

lemma generate_streaming_eq:
  assumes "get_default_llm env True = Inr backend"
      and "astream backend (format_messages env (context state) (messages state)) = (chunks, None)"
  shows "generate_streaming env state =
           (map (\<lambda>k. streaming_unit (concat (take (Suc k) (stream_deltas chunks))))
              [0..<length (stream_deltas chunks)]
            @ [final_unit env (concat (stream_deltas chunks))], None)"
  using assms by (simp add: generate_streaming_def stream_loop_eq final_unit_def)

lemma initial_state_fields:
  "context (initial_state b q ch) = []"
  "messages (initial_state b q ch) = build_messages q ch"
  "query (initial_state b q ch) = q"
  by (simp_all add: initial_state_def)

lemma clear_index_add_failure:
  "add_failure (store (clear_index ix)) = add_failure (store ix)"
  by (simp add: clear_index_def delete_collection_def split: option.splits)


lemma stub_txt_supported: "''.txt'' \<in> SUPPORTED_EXTENSIONS stub_loaders"
  by (simp add: SUPPORTED_EXTENSIONS_def LOADER_MAP_def)

lemma stub_load_document:
  "load_document stub_loaders (txt_entry p) = stub_loader (txt_entry p)"
  by (simp add: load_document_def LOADER_MAP_def txt_entry_def stub_loaders_def)

lemma txt_entry_fields:
  "p_str (txt_entry p) = p"
  "p_is_file (txt_entry p)"
  "p_suffix_lower (txt_entry p) = ''.txt''"
  by (simp_all add: txt_entry_def)

lemma stub_load_docs_dir:
  "load_directory stub_loaders d (Some docs_dir) True =
     \<lparr>yielded = [\<lparr>page_content = ''Hello world.'',
                   doc_metadata = empty_metadata\<lparr>m_source := Some ''/docs/a.txt''\<rparr>\<rparr>],
      printed = [''Error loading /docs/bad.txt: cannot decode''],
      raised = None\<rparr>"
  by (simp add: load_directory_def docs_dir_def stub_txt_supported stub_load_document
        stub_loader_def txt_entry_fields)

section \<open>Streaming event sequence\<close>

text \<open>
  Claim C1, as amended. When retrieval succeeds and the backend streams exactly the deltas
  \<^verbatim>\<open>Hel\<close> and \<^verbatim>\<open>lo\<close> and then completes, \<^verbatim>\<open>stream_rag\<close> yields five events: the sources
  event, a chunk event for \<^verbatim>\<open>Hel\<close>, a chunk event for \<^verbatim>\<open>Hello\<close>, a second chunk event for
  \<^verbatim>\<open>Hello\<close> whose streaming flag is false (the generator's final unit, which the loop
  forwards like every other unit), and the done event for \<^verbatim>\<open>Hello\<close>.
\<close>

theorem stream_hel_lo_events:
  assumes retr: "aretrieve retriever q None = Inr result"
      and llm: "get_default_llm env True = Inr backend"
      and str: "astream backend (format_messages env (context_of result) (build_messages q ch)) =
                 ([AIChunk (StrContent ''Hel''), AIChunk (StrContent ''lo'')], None)"
  shows "stream_rag env retriever q ch =
           ([SourcesEvent (sources result) (context_of result),
             ChunkEvent ''Hel'' True,
             ChunkEvent ''Hello'' True,
             ChunkEvent ''Hello'' False,
             DoneEvent ''Hello'' (llm_model (settings env)) (llm_provider (settings env))
               (sources result)], None)"
  using assms
  by (simp add: stream_rag_def generate_streaming_def Let_def chunk_event_def done_event_def
        initial_state_fields)

text \<open>The five events on the stub backend and the one-chunk index.\<close>

theorem stream_hel_lo_events_witness:
  "stream_rag stub_env stub_retriever ''what is in the documents?'' None =
     ([SourcesEvent
         [\<lparr>filename = ''test.pdf'', page = Some 1, slide = None, sheet = None, score = 0.5\<rparr>]
         ''Hello world.'',
       ChunkEvent ''Hel'' True,
       ChunkEvent ''Hello'' True,
       ChunkEvent ''Hello'' False,
       DoneEvent ''Hello'' ''gemma3:4b'' ''ollama''
         [\<lparr>filename = ''test.pdf'', page = Some 1, slide = None, sheet = None,
           score = 0.5\<rparr>]], None)"
  using stream_hel_lo_events [of stub_retriever "''what is in the documents?''"
      "\<lparr>documents = [pdf_chunk], sources = [from_document pdf_chunk 0.5]\<rparr>"
      stub_env stub_backend None]
  by (simp add: stub_env_def stub_backend_def stub_retriever_def DocumentRetriever_def
        aretrieve_def retrieve_def py_or_def default_settings_def from_document_def
        source_key_def fmt_int_opt_def fmt_str_opt_def context_of_def pdf_chunk_def
        empty_metadata_def)

text \<open>
  The four-event sequence of the original claim is not what the stub run yields.
\<close>

theorem stream_four_events_counterexample:
  "map event_view (fst (stream_rag stub_env stub_retriever ''what is in the documents?'' None))
     \<noteq> [(''sources'', None), (''chunk'', Some ''Hel''), (''chunk'', Some ''Hello''),
         (''done'', Some ''Hello'')]"
  by (simp add: stream_rag_def generate_streaming_def Let_def chunk_event_def done_event_def
        stub_env_def stub_backend_def stub_retriever_def DocumentRetriever_def
        aretrieve_def retrieve_def py_or_def default_settings_def)

section \<open>Source deduplication\<close>






section \<open>Incremental generation\<close>

text \<open>
  Claim C3. When the backend is available and its stream of chunks completes,
  \<^verbatim>\<open>generate_streaming\<close> yields one unit per delta and then one more. The unit for the
  \<open>k\<close>-th delta carries the concatenation of the first \<open>k\<close> deltas (the whole accumulated
  text, not the delta), has the streaming flag set and no model or provider. The last unit
  carries the concatenation of all deltas, has the streaming flag cleared and names the
  model and the provider. The response of every unit is a prefix of the response of each
  later unit.
\<close>

theorem generate_streaming_contract:
  assumes llm: "get_default_llm env True = Inr backend"
      and str: "astream backend (format_messages env (context state) (messages state)) =
                 (chunks, None)"
  shows "snd (generate_streaming env state) = None
       \<and> length (fst (generate_streaming env state)) = Suc (length (stream_deltas chunks))
       \<and> (\<forall>k < length (stream_deltas chunks).
            fst (generate_streaming env state) ! k =
              \<lparr>u_response = Some (concat (take (Suc k) (stream_deltas chunks))),
               u_is_streaming = Some True, u_model = None, u_provider = None\<rparr>)
       \<and> fst (generate_streaming env state) ! length (stream_deltas chunks) =
            \<lparr>u_response = Some (concat (stream_deltas chunks)),
             u_is_streaming = Some False,
             u_model = Some (llm_model (settings env)),
             u_provider = Some (llm_provider (settings env))\<rparr>
       \<and> (\<forall>i j. i \<le> j \<and> j \<le> length (stream_deltas chunks) \<longrightarrow>
            prefix (response_text (fst (generate_streaming env state) ! i))
                   (response_text (fst (generate_streaming env state) ! j)))"
proof -
  let ?ds = "stream_deltas chunks"
  let ?n = "length ?ds"
  let ?us = "fst (generate_streaming env state)"
  have eq: "generate_streaming env state =
      (map (\<lambda>k. streaming_unit (concat (take (Suc k) ?ds))) [0..<?n]
        @ [final_unit env (concat ?ds)], None)"
    by (rule generate_streaming_eq [OF llm str])
  have len: "length ?us = Suc ?n" by (simp add: eq)
  have mid: "?us ! k = streaming_unit (concat (take (Suc k) ?ds))" if "k < ?n" for k
    using that by (simp add: eq nth_append)
  have fin: "?us ! ?n = final_unit env (concat ?ds)"
    by (simp add: eq nth_append)
  have resp: "response_text (?us ! k) = concat (take (Suc k) ?ds)" if "k \<le> ?n" for k
  proof (cases "k < ?n")
    case True
    then show ?thesis by (simp add: mid response_text_def streaming_unit_def)
  next
    case False
    with that have "k = ?n" by simp
    then show ?thesis by (simp add: fin response_text_def final_unit_def)
  qed
  have pre: "prefix (response_text (?us ! i)) (response_text (?us ! j))"
    if "i \<le> j" "j \<le> ?n" for i j
  proof -
    from that have "i \<le> ?n" by simp
    with that show ?thesis by (simp add: resp concat_take_prefix)
  qed
  show ?thesis
    using len mid fin pre by (simp add: eq streaming_unit_def final_unit_def)
qed

text \<open>The units for the stub backend: \<^verbatim>\<open>Hel\<close>, \<^verbatim>\<open>Hello\<close>, and the final \<^verbatim>\<open>Hello\<close>.\<close>

theorem generate_streaming_contract_witness:
  "fst (generate_streaming stub_env stub_state) ! 0 =
     \<lparr>u_response = Some ''Hel'', u_is_streaming = Some True, u_model = None,
      u_provider = None\<rparr>
   \<and> fst (generate_streaming stub_env stub_state) ! 1 =
     \<lparr>u_response = Some ''Hello'', u_is_streaming = Some True, u_model = None,
      u_provider = None\<rparr>
   \<and> fst (generate_streaming stub_env stub_state) ! 2 =
     \<lparr>u_response = Some ''Hello'', u_is_streaming = Some False,
      u_model = Some ''gemma3:4b'', u_provider = Some ''ollama''\<rparr>
   \<and> length (fst (generate_streaming stub_env stub_state)) = 3
   \<and> snd (generate_streaming stub_env stub_state) = None"
proof -
  have llm: "get_default_llm stub_env True = Inr stub_backend"
    by (simp add: stub_env_def)
  have str: "astream stub_backend
               (format_messages stub_env (context stub_state) (messages stub_state)) =
             ([AIChunk (StrContent ''Hel''), AIChunk (StrContent ''lo'')], None)"
    by (simp add: stub_backend_def)
  from generate_streaming_contract [OF llm str] show ?thesis
    by (auto simp: stub_env_def default_settings_def numeral_2_eq_2 less_Suc_eq)
qed

section \<open>Buffered and streamed runs agree\<close>

text \<open>
  Claim C4. Fix the query, the history and a successful retrieval. If the buffered backend
  answers the prompt with content whose text is the concatenation of the deltas that the
  streaming backend delivers for the same prompt before completing, then \<^verbatim>\<open>run_rag\<close>
  returns a final state, \<^verbatim>\<open>stream_rag\<close> ends with a done event, and the done event's
  response is the final state's response.
\<close>

theorem run_matches_stream:
  assumes retr: "aretrieve retriever q None = Inr result"
      and buffered: "get_default_llm env False = Inr b1"
      and streaming: "get_default_llm env True = Inr b2"
      and reply: "ainvoke b1 (format_messages env (context_of result) (build_messages q ch)) =
                   Inr c"
      and stream: "astream b2 (format_messages env (context_of result) (build_messages q ch)) =
                    (chunks, None)"
      and same: "extract_content c = concat (stream_deltas chunks)"
  shows "\<exists>s evs m p srcs.
           run_rag env retriever q ch = Inr s
         \<and> stream_rag env retriever q ch = (evs @ [DoneEvent (response s) m p srcs], None)"
proof -
  let ?st = "(initial_state True q ch)\<lparr>retrieved_docs := documents result,
                context := context_of result, st_sources := sources result\<rparr>"
  have gs: "generate_streaming env ?st =
      (map (\<lambda>k. streaming_unit (concat (take (Suc k) (stream_deltas chunks))))
              [0..<length (stream_deltas chunks)]
            @ [final_unit env (concat (stream_deltas chunks))], None)"
    by (rule generate_streaming_eq [OF streaming]) (simp add: stream initial_state_fields)
  have run: "run_rag env retriever q ch =
      Inr ((initial_state False q ch)\<lparr>retrieved_docs := documents result,
                context := context_of result, st_sources := sources result,
                response := extract_content c,
                model := llm_model (settings env),
                provider := llm_provider (settings env)\<rparr>)"
    using retr buffered reply
    by (simp add: run_rag_def retrieve_node_def generate_def Let_def initial_state_fields)
  have str: "stream_rag env retriever q ch =
      ((SourcesEvent (sources result) (context_of result)
         # map chunk_event (fst (generate_streaming env ?st)))
        @ [DoneEvent (concat (stream_deltas chunks)) (llm_model (settings env))
             (llm_provider (settings env)) (sources result)], None)"
    using retr
    by (simp add: stream_rag_def Let_def gs done_event_def final_unit_def)
  show ?thesis
    unfolding run str using same by auto
qed

text \<open>On the stub backend both runs answer \<^verbatim>\<open>Hello\<close>.\<close>

theorem run_matches_stream_witness:
  "\<exists>s evs m p srcs.
     run_rag stub_env stub_retriever ''q'' None = Inr s
   \<and> stream_rag stub_env stub_retriever ''q'' None =
       (evs @ [DoneEvent (response s) m p srcs], None)
   \<and> response s = ''Hello''"
proof -
  let ?result = "\<lparr>documents = [pdf_chunk], sources = [from_document pdf_chunk 0.5]\<rparr>"
  let ?prompt = "format_messages stub_env (context_of ?result) (build_messages ''q'' None)"
  have retr: "aretrieve stub_retriever ''q'' None = Inr ?result"
    by (simp add: stub_retriever_def DocumentRetriever_def aretrieve_def retrieve_def
          py_or_def default_settings_def)
  have b1: "get_default_llm stub_env False = Inr stub_backend"
    and b2: "get_default_llm stub_env True = Inr stub_backend"
    by (simp_all add: stub_env_def)
  have reply: "ainvoke stub_backend ?prompt = Inr (StrContent ''Hello'')"
    by (simp add: stub_backend_def)
  have stream: "astream stub_backend ?prompt =
      ([AIChunk (StrContent ''Hel''), AIChunk (StrContent ''lo'')], None)"
    by (simp add: stub_backend_def)
  have same: "extract_content (StrContent ''Hello'') =
      concat (stream_deltas [AIChunk (StrContent ''Hel''), AIChunk (StrContent ''lo'')])"
    by simp
  from run_matches_stream [OF retr b1 b2 reply stream same]
  obtain s evs m p srcs where
    r: "run_rag stub_env stub_retriever ''q'' None = Inr s" and
    st: "stream_rag stub_env stub_retriever ''q'' None =
           (evs @ [DoneEvent (response s) m p srcs], None)"
    by blast
  have "run_rag stub_env stub_retriever ''q'' None =
      Inr ((initial_state False ''q'' None)\<lparr>retrieved_docs := documents ?result,
                context := context_of ?result, st_sources := sources ?result,
                response := ''Hello'',
                model := llm_model (settings stub_env),
                provider := llm_provider (settings stub_env)\<rparr>)"
    using retr b1 reply
    by (simp add: run_rag_def retrieve_node_def generate_def Let_def initial_state_fields)
  with r have "response s = ''Hello''" by auto
  with r st show ?thesis by blast
qed

section \<open>Indexing operation\<close>







text \<open>
  Claim C7. If documents were loaded and split into at least one chunk and the batch add to
  the vector store fails, the result has both counts zero and the add failure's message,
  prefixed with \<^verbatim>\<open>Error adding to vector store:\<close>, is appended to the errors collected so
  far.
\<close>

theorem add_failure_zero_counts:
  assumes docs: "yielded (load_directory L docs_path (Some dir) True) \<noteq> []"
      and chunks: "split_documents (yielded (load_directory L docs_path (Some dir) True)) \<noteq> []"
      and fails: "add_failure (store ix) = Some m"
  shows "fst (index_documents L split_documents docs_path ix (Some dir) clear_existing) =
           \<lparr>indexed_count = 0, chunk_count = 0,
            errors = (case raised (load_directory L docs_path (Some dir) True) of
                        None \<Rightarrow> []
                      | Some e \<Rightarrow> [''Error loading documents: '' @ str_error e])
                     @ [''Error adding to vector store: '' @ m]\<rparr>"
  using assms
  by (simp add: index_documents_def Let_def add_documents_def clear_index_add_failure)

text \<open>A store that refuses the batch with \<^verbatim>\<open>Store error\<close>.\<close>

theorem add_failure_zero_counts_witness:
  "fst (index_documents stub_loaders one_chunk_each docs_dir failing_indexer
          (Some docs_dir) False) =
     \<lparr>indexed_count = 0, chunk_count = 0,
      errors = [''Error adding to vector store: Store error'']\<rparr>"
proof -
  have docs: "yielded (load_directory stub_loaders docs_dir (Some docs_dir) True) \<noteq> []"
    by (simp add: stub_load_docs_dir)
  have chunks: "one_chunk_each (yielded (load_directory stub_loaders docs_dir
                  (Some docs_dir) True)) \<noteq> []"
    by (simp add: stub_load_docs_dir one_chunk_each_def)
  have fails: "add_failure (store failing_indexer) = Some ''Store error''"
    by (simp add: failing_indexer_def)
  have "fst (index_documents stub_loaders one_chunk_each docs_dir failing_indexer
               (Some docs_dir) False) =
          \<lparr>indexed_count = 0, chunk_count = 0,
           errors = (case raised (load_directory stub_loaders docs_dir (Some docs_dir) True) of
                       None \<Rightarrow> []
                     | Some e \<Rightarrow> [''Error loading documents: '' @ str_error e])
                    @ [''Error adding to vector store: '' @ ''Store error'']\<rparr>"
    using docs chunks fails
    by (rule add_failure_zero_counts
          [where L = stub_loaders and docs_path = docs_dir and dir = docs_dir
             and split_documents = one_chunk_each and ix = failing_indexer
             and m = "''Store error''" and clear_existing = False])
  then show ?thesis by (simp add: stub_load_docs_dir)
qed

section \<open>Splitter configuration\<close>




section \<open>Messages built from the chat history\<close>

lemma build_messages_eq: "build_messages q ch = history_messages q ch"
  by (cases ch) (auto simp: build_messages_def history_messages_def convert_history_filter)

text \<open>
  Claim C10. Fix a query, any chat history (absent, empty or not) and a successful
  retrieval. \<^verbatim>\<open>run_rag\<close> puts to the buffered backend the prompt formatted from the
  history's turns whose role is exactly \<^verbatim>\<open>user\<close> or \<^verbatim>\<open>assistant\<close>, in their order, followed
  by the query as a user message; when the backend answers, the run returns the final
  state, which holds exactly that message list. \<^verbatim>\<open>stream_rag\<close> puts the prompt formatted
  from the same list to the streaming backend; when the stream completes, its events are
  the sources, one chunk per delta, the final chunk and done. Turns with any other role are
  dropped without an error, and the last message of the list is the current query.
\<close>

theorem history_messages_reach_both_runs:
  assumes retr: "aretrieve retriever q None = Inr result"
  shows "(get_default_llm env False = Inr b1
            \<and> ainvoke b1 (format_messages env (context_of result) (history_messages q ch)) = Inr c
          \<longrightarrow> run_rag env retriever q ch =
                Inr \<lparr>messages = history_messages q ch,
                     query = q,
                     retrieved_docs = documents result,
                     context = context_of result,
                     st_sources = sources result,
                     response = extract_content c,
                     is_streaming = False,
                     model = llm_model (settings env),
                     provider = llm_provider (settings env)\<rparr>)
       \<and> (get_default_llm env True = Inr b2
            \<and> astream b2 (format_messages env (context_of result) (history_messages q ch)) =
                (chunks, None)
          \<longrightarrow> stream_rag env retriever q ch =
                (SourcesEvent (sources result) (context_of result)
                 # map (\<lambda>k. ChunkEvent (concat (take (Suc k) (stream_deltas chunks))) True)
                     [0..<length (stream_deltas chunks)]
                 @ [ChunkEvent (concat (stream_deltas chunks)) False,
                    DoneEvent (concat (stream_deltas chunks)) (llm_model (settings env))
                      (llm_provider (settings env)) (sources result)], None))
       \<and> last (history_messages q ch) = HumanMessage q"
proof -
  have run: "run_rag env retriever q ch =
                Inr \<lparr>messages = history_messages q ch,
                     query = q,
                     retrieved_docs = documents result,
                     context = context_of result,
                     st_sources = sources result,
                     response = extract_content c,
                     is_streaming = False,
                     model = llm_model (settings env),
                     provider = llm_provider (settings env)\<rparr>"
    if "get_default_llm env False = Inr b1"
       "ainvoke b1 (format_messages env (context_of result) (history_messages q ch)) = Inr c"
    using retr that
    by (simp add: run_rag_def retrieve_node_def generate_def Let_def initial_state_def
          build_messages_eq)
  have str: "stream_rag env retriever q ch =
                (SourcesEvent (sources result) (context_of result)
                 # map (\<lambda>k. ChunkEvent (concat (take (Suc k) (stream_deltas chunks))) True)
                     [0..<length (stream_deltas chunks)]
                 @ [ChunkEvent (concat (stream_deltas chunks)) False,
                    DoneEvent (concat (stream_deltas chunks)) (llm_model (settings env))
                      (llm_provider (settings env)) (sources result)], None)"
    if llm: "get_default_llm env True = Inr b2"
       and st: "astream b2 (format_messages env (context_of result) (history_messages q ch)) =
                  (chunks, None)"
  proof -
    let ?st = "(initial_state True q ch)\<lparr>retrieved_docs := documents result,
                  context := context_of result, st_sources := sources result\<rparr>"
    have gs: "generate_streaming env ?st =
        (map (\<lambda>k. streaming_unit (concat (take (Suc k) (stream_deltas chunks))))
                [0..<length (stream_deltas chunks)]
              @ [final_unit env (concat (stream_deltas chunks))], None)"
      by (rule generate_streaming_eq [OF llm])
         (simp add: st initial_state_fields build_messages_eq)
    show ?thesis
      using retr
      by (simp add: stream_rag_def Let_def gs done_event_def chunk_event_def final_unit_def
            streaming_unit_def comp_def)
  qed
  have "last (history_messages q ch) = HumanMessage q"
    by (simp add: history_messages_def)
  with run str show ?thesis by blast
qed

text \<open>
  A history with a \<^verbatim>\<open>system\<close> turn between a user and an assistant turn, on the backend
  that echoes its prompt: the system turn's text \<^verbatim>\<open>x\<close> reaches neither run.
\<close>

theorem history_messages_reach_both_runs_witness:
  "run_rag echo_env stub_retriever ''now'' (Some three_turns) =
     Inr \<lparr>messages = [HumanMessage ''a'', AIMessage ''b'', HumanMessage ''now''],
          query = ''now'',
          retrieved_docs = [pdf_chunk],
          context = ''Hello world.'',
          st_sources = [\<lparr>filename = ''test.pdf'', page = Some 1, slide = None, sheet = None,
                         score = 0.5\<rparr>],
          response = ''Sabnow'',
          is_streaming = False,
          model = ''gemma3:4b'',
          provider = ''ollama''\<rparr>
   \<and> map event_view (fst (stream_rag echo_env stub_retriever ''now'' (Some three_turns))) =
       [(''sources'', None), (''chunk'', Some ''S''), (''chunk'', Some ''Sa''),
        (''chunk'', Some ''Sab''), (''chunk'', Some ''Sabnow''), (''chunk'', Some ''Sabnow''),
        (''done'', Some ''Sabnow'')]"
proof -
  let ?result = "\<lparr>documents = [pdf_chunk], sources = [from_document pdf_chunk 0.5]\<rparr>"
  let ?M = "[HumanMessage ''a'', AIMessage ''b'', HumanMessage ''now'']"
  have retr: "aretrieve stub_retriever ''now'' None = Inr ?result"
    by (simp add: stub_retriever_def DocumentRetriever_def aretrieve_def retrieve_def
          py_or_def default_settings_def)
  have hm: "history_messages ''now'' (Some three_turns) = ?M"
    by (simp add: history_messages_def three_turns_def turn_message_def)
  have llm: "get_default_llm echo_env b = Inr echo_backend" for b
    by (simp add: echo_env_def)
  have reply: "ainvoke echo_backend
                 (format_messages echo_env (context_of ?result)
                    (history_messages ''now'' (Some three_turns))) =
               Inr (ListContent [TextItem ''S'', TextItem ''a'', TextItem ''b'', TextItem ''now''])"
    by (simp add: hm echo_backend_def echo_env_def)
  have stream: "astream echo_backend
                 (format_messages echo_env (context_of ?result)
                    (history_messages ''now'' (Some three_turns))) =
               ([AIChunk (StrContent ''S''), AIChunk (StrContent ''a''),
                 AIChunk (StrContent ''b''), AIChunk (StrContent ''now'')], None)"
    by (simp add: hm echo_backend_def echo_env_def)
  note both = history_messages_reach_both_runs [OF retr, of echo_env echo_backend
      "Some three_turns"
      "ListContent [TextItem ''S'', TextItem ''a'', TextItem ''b'', TextItem ''now'']"
      echo_backend
      "[AIChunk (StrContent ''S''), AIChunk (StrContent ''a''),
        AIChunk (StrContent ''b''), AIChunk (StrContent ''now'')]"]
  from both llm reply have run: "run_rag echo_env stub_retriever ''now'' (Some three_turns) =
                Inr \<lparr>messages = history_messages ''now'' (Some three_turns),
                     query = ''now'',
                     retrieved_docs = documents ?result,
                     context = context_of ?result,
                     st_sources = sources ?result,
                     response = extract_content
                       (ListContent [TextItem ''S'', TextItem ''a'', TextItem ''b'',
                                     TextItem ''now'']),
                     is_streaming = False,
                     model = llm_model (settings echo_env),
                     provider = llm_provider (settings echo_env)\<rparr>"
    by blast
  have upt4: "[0..<4] = [0, Suc 0, Suc (Suc 0), Suc (Suc (Suc 0))]"
    by (simp add: upt_rec numeral_eq_Suc)
  from both llm stream have str: "stream_rag echo_env stub_retriever ''now'' (Some three_turns) =
                ([SourcesEvent (sources ?result) (context_of ?result),
                  ChunkEvent ''S'' True, ChunkEvent ''Sa'' True, ChunkEvent ''Sab'' True,
                  ChunkEvent ''Sabnow'' True, ChunkEvent ''Sabnow'' False,
                  DoneEvent ''Sabnow'' (llm_model (settings echo_env))
                    (llm_provider (settings echo_env)) (sources ?result)], None)"
    by (simp add: upt4)
  show ?thesis
    unfolding run str
    by (simp add: hm echo_env_def default_settings_def context_of_def
          from_document_def pdf_chunk_def empty_metadata_def)
qed


end
